theory Spec2Isabelle
  imports Complex_Main "HOL-Library.Char_ord" "HOL-Library.List_Lexorder"
begin

section \<open>The suspicion-scoring engine of the LM Arena MVP\<close>

text \<open>
  The development embeds the part of \<^verbatim>\<open>lmarena.py\<close> that keeps a judge's vote history
  and suspicion score: the session-state initialisation, \<^verbatim>\<open>update_suspicion_score\<close> and
  \<^verbatim>\<open>handle_vote\<close>, together with the two buttons that drive them.

  Conventions of the embedding.
  \<^item> The Streamlit session state is a record that every function takes and returns.
  \<^item> The score is a Python float. It is modelled by an exact real number and the
    literal \<^verbatim>\<open>0.9\<close> by \<open>9/10\<close>: every result below is about the order of the
    operations and about comparisons, and reads the same with each operation replaced by
    its rounded counterpart.
  \<^item> A time stamp (\<^verbatim>\<open>datetime.now()\<close>) is an integer number of microseconds, the
    resolution of \<^verbatim>\<open>datetime\<close>; \<^verbatim>\<open>total_seconds() < 3\<close> is then a difference below
    \<open>3000000\<close>. The clock is an input of the model and is not assumed monotonic.
  \<^item> The status labels carry an icon in the source; they are the three constructors of
    a datatype here. Rule names and winners stay strings, as in the source.
  \<^item> Toasts, page layout and the canned model responses do not feed the score and are
    left out; the new prompt drawn at random after a vote is an input of the model.
\<close>

subsection \<open>Data\<close>

datatype status = Normal | Suspicious | Flagged

record vote_record =
  vote_judge_hash :: string
  model_a :: string
  model_b :: string
  battle_pair :: "string \<times> string"
  winner :: string
  tstamp :: int
  prompt :: string
  suspicion_score_after :: "real option"

record session_state =
  vote_history :: "vote_record list"
  judge_hash :: string
  suspicion_score :: real
  status :: status
  triggered_rules :: "string set"
  current_prompt :: string

text \<open>The block run once per session; the random judge identifier is a parameter.\<close>

definition session_state_init :: "string \<Rightarrow> session_state" where
  "session_state_init jh =
     \<lparr> vote_history = [],
       judge_hash = jh,
       suspicion_score = 0,
       status = Normal,
       triggered_rules = {},
       current_prompt = ''Explain the concept of photosynthesis in simple terms.'' \<rparr>"

subsection \<open>Signals of \<^verbatim>\<open>update_suspicion_score\<close>\<close>

text \<open>
  Each signal is a local variable of \<^verbatim>\<open>update_suspicion_score\<close>, computed from the data
  frame of the whole history after the guard \<^verbatim>\<open>len(history_df) < 3\<close> has passed.
\<close>

text \<open>\<^verbatim>\<open>(iloc[-1]['tstamp'] - iloc[-2]['tstamp']).total_seconds() < 3\<close>\<close>

definition is_fast_vote :: "vote_record list \<Rightarrow> bool" where
  "is_fast_vote history_df =
     (tstamp (history_df ! (length history_df - 1))
        - tstamp (history_df ! (length history_df - 2)) < 3000000)"

text \<open>\<^verbatim>\<open>tail(5)\<close> returns the whole frame when it is shorter than five rows.\<close>

definition tail5 :: "'a list \<Rightarrow> 'a list" where
  "tail5 xs = drop (length xs - 5) xs"

definition has_strong_bias :: "vote_record list \<Rightarrow> bool" where
  "has_strong_bias history_df =
     (let last_5_votes = tail5 history_df in
      if length last_5_votes = 5 then
        (let winner_list = map winner last_5_votes in
         count_list winner_list (hd winner_list) = 5
           \<and> hd winner_list \<in> set [''model_a'', ''model_b''])
      else False)"

text \<open>\<^verbatim>\<open>value_counts()\<close>: the number of rows of each distinct value.\<close>

definition value_counts :: "'a list \<Rightarrow> nat list" where
  "value_counts xs = map (count_list xs) (remdups xs)"

definition is_repetitive_battle :: "vote_record list \<Rightarrow> bool" where
  "is_repetitive_battle history_df =
     (let battle_counts = value_counts (map battle_pair history_df) in
      if battle_counts \<noteq> [] then Max (set battle_counts) > 5 else False)"

text \<open>\<^verbatim>\<open>nunique()\<close>: the number of distinct values.\<close>

definition nunique :: "'a list \<Rightarrow> nat" where
  "nunique xs = length (remdups xs)"

definition is_repetitive_prompt :: "vote_record list \<Rightarrow> bool" where
  "is_repetitive_prompt history_df =
     (let prompt_diversity =
            (if length history_df > 0
             then real (nunique (map prompt history_df)) / real (length history_df)
             else 1)
      in prompt_diversity < 3 / 10 \<and> length history_df > 5)"

text \<open>\<^verbatim>\<open>str.contains('tie')\<close>: the pattern occurs somewhere in the string.\<close>

fun str_contains :: "string \<Rightarrow> string \<Rightarrow> bool" where
  "str_contains [] pat = (pat = [])"
| "str_contains (c # cs) pat =
     (take (length pat) (c # cs) = pat \<or> str_contains cs pat)"

definition has_excessive_ties :: "vote_record list \<Rightarrow> bool" where
  "has_excessive_ties history_df =
     (let tie_rate =
            real (length (filter (\<lambda>v. str_contains (winner v) ''tie'') history_df))
              / real (length history_df)
      in tie_rate > 8 / 10 \<and> length history_df > 5)"

subsection \<open>Rules\<close>

text \<open>
  One \<^verbatim>\<open>if cond: score += penalty; triggered.add(name)\<close> statement, on the pair of the
  running score and the running set \<^verbatim>\<open>triggered\<close>.
\<close>

definition fire :: "bool \<Rightarrow> real \<Rightarrow> string \<Rightarrow> real \<times> string set \<Rightarrow> real \<times> string set" where
  "fire cond penalty name st =
     (if cond then (fst st + penalty, insert name (snd st)) else st)"

definition apply_rules ::
  "bool \<Rightarrow> bool \<Rightarrow> bool \<Rightarrow> bool \<Rightarrow> bool \<Rightarrow> real \<Rightarrow> real \<times> string set" where
  "apply_rules fast bias rep_battle rep_prompt ties score =
     (let r0 = (score, {});
          r1 = fire (fast \<and> bias) 4 ''Fast & Biased'' r0;
          r2 = fire (bias \<and> rep_battle) 3 ''Biased & Repetitive Battles'' r1;
          r3 = fire (fast \<and> rep_prompt) 2 ''Fast & Repetitive Prompts'' r2;
          r4 = fire (fast \<and> ties) 2 ''Fast & Excessive Ties'' r3;
          r5 = fire (bias \<and> snd r4 = {}) 1 ''Strong Bias'' r4;
          r6 = fire (fast \<and> snd r5 = {}) 1 ''Fast Voting'' r5
      in r6)"

text \<open>The status chain at the end of \<^verbatim>\<open>update_suspicion_score\<close>.\<close>

definition status_of_score :: "real \<Rightarrow> status" where
  "status_of_score score =
     (if score \<ge> 10 then Flagged
      else if score \<ge> 5 then Suspicious
      else Normal)"

definition update_suspicion_score :: "session_state \<Rightarrow> session_state" where
  "update_suspicion_score s =
     (let history_df = vote_history s in
      if length history_df < 3 then s
      else
        (let decayed = suspicion_score s * (9 / 10);
             r = apply_rules (is_fast_vote history_df) (has_strong_bias history_df)
                   (is_repetitive_battle history_df) (is_repetitive_prompt history_df)
                   (has_excessive_ties history_df) decayed;
             score = max 0 (fst r)
         in s\<lparr> triggered_rules := snd r,
               suspicion_score := score,
               status := status_of_score score \<rparr>))"

subsection \<open>Recording a vote\<close>

text \<open>\<^verbatim>\<open>tuple(sorted((a, b)))\<close>: the stable sort swaps only when the second is smaller.\<close>

definition sorted_pair :: "string \<Rightarrow> string \<Rightarrow> string \<times> string" where
  "sorted_pair a b = (if b < a then (b, a) else (a, b))"

text \<open>
  \<^verbatim>\<open>handle_vote(winner_choice)\<close>; \<open>now\<close> is the value of \<^verbatim>\<open>datetime.now()\<close> and
  \<open>new_prompt\<close> the outcome of \<^verbatim>\<open>np.random.choice\<close>. Its first two statements, which
  build the vote record and append it, are \<open>append_vote\<close>: the state that
  \<^verbatim>\<open>update_suspicion_score\<close> evaluates.
\<close>

definition append_vote :: "string \<Rightarrow> int \<Rightarrow> session_state \<Rightarrow> session_state" where
  "append_vote winner_choice now s =
     (let vote_record =
            \<lparr> vote_judge_hash = judge_hash s,
              model_a = ''model_alpha'',
              model_b = ''model_beta'',
              battle_pair = sorted_pair ''model_alpha'' ''model_beta'',
              winner = winner_choice,
              tstamp = now,
              prompt = current_prompt s,
              suspicion_score_after = None \<rparr>
      in s\<lparr> vote_history := vote_history s @ [vote_record] \<rparr>)"

definition handle_vote :: "string \<Rightarrow> int \<Rightarrow> string \<Rightarrow> session_state \<Rightarrow> session_state" where
  "handle_vote winner_choice now new_prompt s =
     (let s1 = append_vote winner_choice now s;
          s2 = update_suspicion_score s1;
          h = vote_history s2;
          s3 = s2\<lparr> vote_history :=
                     h[length h - 1 :=
                         (h ! (length h - 1))\<lparr> suspicion_score_after :=
                                                  Some (suspicion_score s2) \<rparr>] \<rparr>
      in s3\<lparr> current_prompt := new_prompt \<rparr>)"

subsection \<open>The user's actions\<close>

datatype button = Model_A_is_Better | Model_B_is_Better | Tie | Both_are_Bad

fun winner_choice_of :: "button \<Rightarrow> string" where
  "winner_choice_of Model_A_is_Better = ''model_a''"
| "winner_choice_of Model_B_is_Better = ''model_b''"
| "winner_choice_of Tie = ''tie''"
| "winner_choice_of Both_are_Bad = ''tie (bothbad)''"

text \<open>
  One run of the script: a vote button pressed at time \<open>now\<close> (with the prompt drawn
  afterwards), or the button that installs the prompt typed by the user.
\<close>

datatype action = Vote button int string | Generate_Responses string

fun script_run :: "session_state \<Rightarrow> action \<Rightarrow> session_state" where
  "script_run s (Vote b now new_prompt) = handle_vote (winner_choice_of b) now new_prompt s"
| "script_run s (Generate_Responses prompt_input) = s\<lparr> current_prompt := prompt_input \<rparr>"

definition session :: "string \<Rightarrow> action list \<Rightarrow> session_state" where
  "session jh acts = foldl script_run (session_state_init jh) acts"

text \<open>The classifier as the specification words it: a function of the score alone.\<close>

definition classify_spec :: "real \<Rightarrow> status" where
  "classify_spec score =
     (if score \<ge> 10 then Flagged
      else if 5 \<le> score \<and> score < 10 then Suspicious
      else Normal)"

subsection \<open>Rule names\<close>

text \<open>The names of the four combination rules of \<^verbatim>\<open>update_suspicion_score\<close>.\<close>

definition combination_rules :: "string set" where
  "combination_rules =
     {''Fast & Biased'', ''Biased & Repetitive Battles'',
      ''Fast & Repetitive Prompts'', ''Fast & Excessive Ties''}"

subsection \<open>Concrete sessions\<close>

text \<open>
  Sequences of button presses on which the general results are instantiated. Times are in
  microseconds; the prompts are those that \<^verbatim>\<open>handle_vote\<close> draws from.
\<close>

definition fast_pair :: "action list" where
  "fast_pair =
     [Vote Model_A_is_Better 0 ''Tell me a joke.'',
      Vote Model_B_is_Better 1000000 ''Explain gravity.'']"

definition fast_start :: "action list" where
  "fast_start = fast_pair @ [Vote Model_A_is_Better 2000000 ''Write a short story.'']"

definition two_for_a :: "action list" where
  "two_for_a =
     [Vote Model_A_is_Better 0 ''Tell me a joke.'',
      Vote Model_A_is_Better 4000000 ''Write a short story.'']"

definition three_for_a :: "action list" where
  "three_for_a = two_for_a @ [Vote Model_A_is_Better 8000000 ''Explain gravity.'']"

definition four_for_a :: "action list" where
  "four_for_a = three_for_a @ [Vote Model_A_is_Better 12000000 ''Tell me a joke.'']"

definition five_for_a :: "action list" where
  "five_for_a = four_for_a @ [Vote Model_A_is_Better 16000000 ''Explain gravity.'']"

definition five_alternating :: "action list" where
  "five_alternating =
     [Vote Model_A_is_Better 0 ''Tell me a joke.'',
      Vote Model_B_is_Better 4000000 ''Write a short story.'',
      Vote Model_A_is_Better 8000000 ''Explain gravity.'',
      Vote Model_B_is_Better 12000000 ''Tell me a joke.'',
      Vote Model_A_is_Better 16000000 ''Explain gravity.'']"

definition five_ties :: "action list" where
  "five_ties =
     [Vote Tie 0 ''Tell me a joke.'',
      Vote Tie 4000000 ''Write a short story.'',
      Vote Tie 8000000 ''Explain gravity.'',
      Vote Tie 12000000 ''Tell me a joke.'',
      Vote Tie 16000000 ''Explain gravity.'']"

text \<open>
  The state read by the evaluation of a sixth alternating vote, with the stored score set
  to 2 so that the decay acts on a non-zero score.
\<close>

definition six_alternating_scored :: session_state where
  "six_alternating_scored =
     (append_vote ''model_b'' 20000000 (session ''judge'' five_alternating))
       \<lparr> suspicion_score := 2 \<rparr>"

section \<open>Basic facts\<close>

lemma length_handle_vote:
  "length (vote_history (handle_vote w now np s)) = Suc (length (vote_history s))"
  by (simp add: handle_vote_def append_vote_def update_suspicion_score_def Let_def)

lemma update_history: "vote_history (update_suspicion_score s) = vote_history s"
  by (simp add: update_suspicion_score_def Let_def)

section \<open>The audit field\<close>

text \<open>
  Claim C8. After every call of \<open>handle_vote\<close>, the field \<open>suspicion_score_after\<close> of the
  event just appended (the last one of the history) holds the score that the evaluation
  of that call left in the session state.
\<close>

theorem audit_field_is_score:
  "suspicion_score_after (last (vote_history (handle_vote w now np s)))
     = Some (suspicion_score (handle_vote w now np s))"
  by (simp add: handle_vote_def append_vote_def Let_def update_history last_conv_nth)

section \<open>Evaluation and invariants\<close>

lemma arena_pair: "sorted_pair ''model_alpha'' ''model_beta'' = (''model_alpha'', ''model_beta'')"
  by (simp add: sorted_pair_def less_char_def)

lemma status_of_score_spec: "status_of_score x = classify_spec x"
  by (simp add: status_of_score_def classify_spec_def)

lemma apply_rules_ge: "score \<le> fst (apply_rules f b rb rp t score)"
  by (simp add: apply_rules_def fire_def Let_def)

lemma update_short: "length (vote_history s) < 3 \<Longrightarrow> update_suspicion_score s = s"
  by (simp add: update_suspicion_score_def)

lemma update_status:
  "3 \<le> length (vote_history s) \<Longrightarrow>
   status (update_suspicion_score s) = status_of_score (suspicion_score (update_suspicion_score s))"
  by (simp add: update_suspicion_score_def Let_def)

lemma update_nonneg:
  "3 \<le> length (vote_history s) \<Longrightarrow> 0 \<le> suspicion_score (update_suspicion_score s)"
  by (simp add: update_suspicion_score_def Let_def)

lemma update_score:
  "3 \<le> length (vote_history s) \<Longrightarrow> 0 \<le> suspicion_score s \<Longrightarrow>
   suspicion_score (update_suspicion_score s) =
     fst (apply_rules (is_fast_vote (vote_history s)) (has_strong_bias (vote_history s))
                   (is_repetitive_battle (vote_history s)) (is_repetitive_prompt (vote_history s))
                   (has_excessive_ties (vote_history s)) (suspicion_score s * (9 / 10)))"
proof -
  assume a: "3 \<le> length (vote_history s)" "0 \<le> suspicion_score s"
  have "0 \<le> suspicion_score s * (9 / 10)" using a by simp
  also have "\<dots> \<le> fst (apply_rules (is_fast_vote (vote_history s)) (has_strong_bias (vote_history s))
                   (is_repetitive_battle (vote_history s)) (is_repetitive_prompt (vote_history s))
                   (has_excessive_ties (vote_history s)) (suspicion_score s * (9 / 10)))"
    by (rule apply_rules_ge)
  finally show ?thesis using a by (simp add: update_suspicion_score_def Let_def)
qed

lemma update_triggered:
  "3 \<le> length (vote_history s) \<Longrightarrow>
   triggered_rules (update_suspicion_score s) =
     snd (apply_rules (is_fast_vote (vote_history s)) (has_strong_bias (vote_history s))
                   (is_repetitive_battle (vote_history s)) (is_repetitive_prompt (vote_history s))
                   (has_excessive_ties (vote_history s)) (suspicion_score s * (9 / 10)))"
  by (simp add: update_suspicion_score_def Let_def)

lemma handle_vote_fields:
  "suspicion_score (handle_vote w now np s) = suspicion_score (update_suspicion_score (append_vote w now s))"
  "status (handle_vote w now np s) = status (update_suspicion_score (append_vote w now s))"
  "triggered_rules (handle_vote w now np s) = triggered_rules (update_suspicion_score (append_vote w now s))"
  by (simp_all add: handle_vote_def Let_def)

lemma append_vote_fields:
  "suspicion_score (append_vote w now s) = suspicion_score s"
  "status (append_vote w now s) = status s"
  "triggered_rules (append_vote w now s) = triggered_rules s"
  "length (vote_history (append_vote w now s)) = Suc (length (vote_history s))"
  by (simp_all add: append_vote_def Let_def)

lemma session_snoc: "session jh (acts @ [a]) = script_run (session jh acts) a"
  by (simp add: session_def)

lemma session_Nil: "session jh [] = session_state_init jh"
  by (simp add: session_def)

lemma handle_vote_status_inv:
  assumes "status s = classify_spec (suspicion_score s)"
  shows "status (handle_vote w now np s) = classify_spec (suspicion_score (handle_vote w now np s))"
proof (cases "length (vote_history (append_vote w now s)) < 3")
  case True
  then show ?thesis using assms by (simp add: handle_vote_fields update_short append_vote_fields)
next
  case False
  then show ?thesis by (simp add: handle_vote_fields update_status status_of_score_spec)
qed

lemma handle_vote_nonneg_inv:
  assumes "0 \<le> suspicion_score s"
  shows "0 \<le> suspicion_score (handle_vote w now np s)"
proof (cases "length (vote_history (append_vote w now s)) < 3")
  case True
  then show ?thesis using assms by (simp add: handle_vote_fields update_short append_vote_fields)
next
  case False
  then show ?thesis by (simp add: handle_vote_fields update_nonneg)
qed

lemma session_status_inv: "status (session jh acts) = classify_spec (suspicion_score (session jh acts))"
proof (induction acts rule: rev_induct)
  case Nil
  show ?case by (simp add: session_Nil session_state_init_def classify_spec_def)
next
  case (snoc a acts)
  then show ?case by (cases a) (simp_all add: session_snoc handle_vote_status_inv)
qed

lemma session_nonneg: "0 \<le> suspicion_score (session jh acts)"
proof (induction acts rule: rev_induct)
  case Nil
  show ?case by (simp add: session_Nil session_state_init_def)
next
  case (snoc a acts)
  then show ?case by (cases a) (simp_all add: session_snoc handle_vote_nonneg_inv)
qed

section \<open>Signals\<close>

lemma count_list_full: "(count_list xs x = length xs) = (\<forall>y\<in>set xs. y = x)"
proof (induction xs)
  case Nil
  show ?case by simp
next
  case (Cons a xs)
  have "count_list xs x \<le> length xs" by (rule count_le_length)
  with Cons show ?case by auto
qed

lemma length_tail5: "5 \<le> length xs \<Longrightarrow> length (tail5 xs) = 5"
  by (simp add: tail5_def)

lemma length_tail5_short: "length xs < 5 \<Longrightarrow> length (tail5 xs) \<noteq> 5"
  by (simp add: tail5_def)

lemma strong_bias_long:
  assumes "5 \<le> length h"
  shows "has_strong_bias h =
           (\<exists>w. (w = ''model_a'' \<or> w = ''model_b'') \<and> (\<forall>v\<in>set (tail5 h). winner v = w))"
proof -
  let ?t = "tail5 h"
  let ?wl = "map winner ?t"
  have len: "length ?t = 5" using assms by (rule length_tail5)
  then have ne: "?t \<noteq> []" by auto
  have hd_in: "hd ?t \<in> set ?t" using ne by simp
  have hdwl: "hd ?wl = winner (hd ?t)" using ne by (simp add: hd_map)
  have cnt: "(count_list ?wl (hd ?wl) = 5) = (\<forall>v\<in>set ?t. winner v = hd ?wl)"
    using count_list_full [of ?wl "hd ?wl"] len by auto
  have "has_strong_bias h = ((\<forall>v\<in>set ?t. winner v = hd ?wl) \<and> (hd ?wl = ''model_a'' \<or> hd ?wl = ''model_b''))"
    using len cnt by (simp add: has_strong_bias_def Let_def)
  also have "\<dots> = (\<exists>w. (w = ''model_a'' \<or> w = ''model_b'') \<and> (\<forall>v\<in>set ?t. winner v = w))"
    using hd_in hdwl by metis
  finally show ?thesis .
qed

lemma strong_bias_short: "length h < 5 \<Longrightarrow> \<not> has_strong_bias h"
  by (simp add: has_strong_bias_def Let_def length_tail5_short)

lemma remdups_const: "xs \<noteq> [] \<Longrightarrow> \<forall>x\<in>set xs. x = p \<Longrightarrow> remdups xs = [p]"
proof (induction xs)
  case Nil
  then show ?case by simp
next
  case (Cons a xs)
  then show ?case by (cases xs) auto
qed

lemma value_counts_const:
  assumes "xs \<noteq> []" and "\<forall>x\<in>set xs. x = p"
  shows "value_counts xs = [length xs]"
proof -
  have "remdups xs = [p]" using assms by (rule remdups_const)
  moreover have "count_list xs p = length xs" using assms(2) by (simp add: count_list_full)
  ultimately show ?thesis by (simp add: value_counts_def)
qed

lemma repetitive_const:
  assumes "5 < length h" and "\<forall>v\<in>set h. battle_pair v = p"
  shows "is_repetitive_battle h"
proof -
  have "map battle_pair h \<noteq> []" using assms(1) by auto
  moreover have "\<forall>x\<in>set (map battle_pair h). x = p" using assms(2) by auto
  ultimately have "value_counts (map battle_pair h) = [length (map battle_pair h)]"
    by (rule value_counts_const)
  then show ?thesis using assms(1) by (simp add: is_repetitive_battle_def)
qed

lemma value_counts_le: "\<forall>c\<in>set (value_counts xs). c \<le> length xs"
  by (simp add: value_counts_def count_le_length)

lemma not_repetitive_short: "length h \<le> 5 \<Longrightarrow> \<not> is_repetitive_battle h"
proof -
  assume a: "length h \<le> 5"
  have "\<forall>c\<in>set (value_counts (map battle_pair h)). c \<le> 5"
    using a value_counts_le [of "map battle_pair h"] by auto
  then have "value_counts (map battle_pair h) \<noteq> [] \<Longrightarrow>
             \<not> 5 < Max (set (value_counts (map battle_pair h)))"
    by (subst Max_gr_iff) auto
  then show ?thesis
    by (auto simp: is_repetitive_battle_def Let_def)
qed

lemma handle_vote_history:
  "vote_history (handle_vote w now np s) =
     vote_history s @
       [\<lparr> vote_judge_hash = judge_hash s, model_a = ''model_alpha'', model_b = ''model_beta'',
          battle_pair = (''model_alpha'', ''model_beta''), winner = w, tstamp = now,
          prompt = current_prompt s,
          suspicion_score_after = Some (suspicion_score (handle_vote w now np s)) \<rparr>]"
  by (simp add: handle_vote_def append_vote_def Let_def update_history arena_pair)

lemma append_vote_history:
  "vote_history (append_vote w now s) =
     vote_history s @
       [\<lparr> vote_judge_hash = judge_hash s, model_a = ''model_alpha'', model_b = ''model_beta'',
          battle_pair = (''model_alpha'', ''model_beta''), winner = w, tstamp = now,
          prompt = current_prompt s, suspicion_score_after = None \<rparr>]"
  by (simp add: append_vote_def Let_def arena_pair)

lemma session_pairs:
  "\<forall>v\<in>set (vote_history (session jh acts)). battle_pair v = (''model_alpha'', ''model_beta'')"
proof (induction acts rule: rev_induct)
  case Nil
  show ?case by (simp add: session_Nil session_state_init_def)
next
  case (snoc a acts)
  then show ?case by (cases a) (simp_all add: session_snoc handle_vote_history)
qed

lemma append_vote_pairs:
  "\<forall>v\<in>set (vote_history (append_vote w now (session jh acts))).
      battle_pair v = (''model_alpha'', ''model_beta'')"
  using session_pairs [of jh acts] by (simp add: append_vote_history)

text \<open>
  Claim C6. The strong-bias signal is false on a history of fewer than five events. On a
  history of at least five events it is true exactly when the winners of the last five
  events are all the same and that winner is \<^verbatim>\<open>model_a\<close> or \<^verbatim>\<open>model_b\<close>; in particular
  five identical ties (\<^verbatim>\<open>tie\<close> or \<^verbatim>\<open>tie (bothbad)\<close>) never make it true.
\<close>

theorem strong_bias_window:
  "(length h < 5 \<longrightarrow> \<not> has_strong_bias h)
   \<and> (5 \<le> length h \<longrightarrow>
        has_strong_bias h =
          (\<exists>w. (w = ''model_a'' \<or> w = ''model_b'') \<and> (\<forall>v\<in>set (tail5 h). winner v = w)))
   \<and> (5 \<le> length h \<and>
        (\<exists>w. (w = ''tie'' \<or> w = ''tie (bothbad)'') \<and> (\<forall>v\<in>set (tail5 h). winner v = w))
        \<longrightarrow> \<not> has_strong_bias h)"
proof (intro conjI impI)
  assume "length h < 5"
  then show "\<not> has_strong_bias h" by (rule strong_bias_short)
next
  assume "5 \<le> length h"
  then show "has_strong_bias h =
          (\<exists>w. (w = ''model_a'' \<or> w = ''model_b'') \<and> (\<forall>v\<in>set (tail5 h). winner v = w))"
    by (rule strong_bias_long)
next
  assume a: "5 \<le> length h \<and>
        (\<exists>w. (w = ''tie'' \<or> w = ''tie (bothbad)'') \<and> (\<forall>v\<in>set (tail5 h). winner v = w))"
  then have len: "length (tail5 h) = 5" by (simp add: length_tail5)
  then have "tail5 h \<noteq> []" by auto
  then obtain v where v: "v \<in> set (tail5 h)" by (cases "tail5 h") auto
  from a v have "winner v = ''tie'' \<or> winner v = ''tie (bothbad)''" by auto
  then have "\<not> (\<exists>w. (w = ''model_a'' \<or> w = ''model_b'') \<and> (\<forall>v\<in>set (tail5 h). winner v = w))"
    using v by auto
  then show "\<not> has_strong_bias h" using a by (simp add: strong_bias_long)
qed

text \<open>
  Claim C10. Every vote in a history built by \<open>handle_vote\<close> carries the sorted pair of
  \<^verbatim>\<open>model_alpha\<close> and \<^verbatim>\<open>model_beta\<close>, so whenever the history that an evaluation reads
  (the one just extended by the new vote) holds more than five votes, the
  repetitive-battle signal is true; this covers the sixth evaluation and all later ones.
\<close>

theorem constant_pair_repetitive:
  "(\<forall>v\<in>set (vote_history (append_vote w now (session jh acts))).
       battle_pair v = sorted_pair ''model_alpha'' ''model_beta'')
   \<and> (5 < length (vote_history (append_vote w now (session jh acts))) \<longrightarrow>
        is_repetitive_battle (vote_history (append_vote w now (session jh acts))))"
  using append_vote_pairs [of w now jh acts]
        repetitive_const [of "vote_history (append_vote w now (session jh acts))" "(''model_alpha'', ''model_beta'')"]
  by (simp add: arena_pair)

section \<open>Rules and scores\<close>

lemma apply_rules_snd:
  "snd (apply_rules f b rb rp t sc) =
     (if f \<and> b then {''Fast & Biased''} else {})
     \<union> (if b \<and> rb then {''Biased & Repetitive Battles''} else {})
     \<union> (if f \<and> rp then {''Fast & Repetitive Prompts''} else {})
     \<union> (if f \<and> t then {''Fast & Excessive Ties''} else {})
     \<union> (if b \<and> \<not> f \<and> \<not> rb then {''Strong Bias''} else {})
     \<union> (if f \<and> \<not> b \<and> \<not> rp \<and> \<not> t then {''Fast Voting''} else {})"
  by (cases f; cases b; cases rb; cases rp; cases t)
     (simp_all add: apply_rules_def fire_def Let_def insert_commute)

lemma apply_rules_fst:
  "fst (apply_rules f b rb rp t sc) =
     sc + (if f \<and> b then 4 else 0) + (if b \<and> rb then 3 else 0)
        + (if f \<and> rp then 2 else 0) + (if f \<and> t then 2 else 0)
        + (if b \<and> \<not> f \<and> \<not> rb then 1 else 0)
        + (if f \<and> \<not> b \<and> \<not> rp \<and> \<not> t then 1 else 0)"
  by (cases f; cases b; cases rb; cases rp; cases t)
     (simp_all add: apply_rules_def fire_def Let_def)

lemma apply_rules_none:
  "snd (apply_rules f b rb rp t sc) = {} \<Longrightarrow> fst (apply_rules f b rb rp t sc) = sc"
  by (cases f; cases b; cases rb; cases rp; cases t)
     (simp_all add: apply_rules_def fire_def Let_def)

text \<open>
  Claim C1. In every state that a session can reach, and after every further call of
  \<open>handle_vote\<close> from such a state, the stored status is the classifier image of the
  stored score.
\<close>

theorem status_matches_score:
  "status (session jh acts) = classify_spec (suspicion_score (session jh acts))
   \<and> status (handle_vote w now np (session jh acts))
       = classify_spec (suspicion_score (handle_vote w now np (session jh acts)))"
  by (simp add: session_status_inv handle_vote_status_inv)

text \<open>
  Claim C9. The score starts at zero; an evaluation and a whole call of \<open>handle_vote\<close>
  take a non-negative score to a non-negative score; hence the score of every reachable
  session state is non-negative.
\<close>

theorem score_never_negative:
  "suspicion_score (session_state_init jh) = 0
   \<and> (0 \<le> suspicion_score s \<longrightarrow> 0 \<le> suspicion_score (update_suspicion_score s))
   \<and> (0 \<le> suspicion_score s \<longrightarrow> 0 \<le> suspicion_score (handle_vote w now np s))
   \<and> 0 \<le> suspicion_score (session jh acts)"
proof -
  have "0 \<le> suspicion_score s \<longrightarrow> 0 \<le> suspicion_score (update_suspicion_score s)"
    by (cases "length (vote_history s) < 3") (simp_all add: update_short update_nonneg)
  then show ?thesis
    by (simp add: session_state_init_def handle_vote_nonneg_inv session_nonneg)
qed

text \<open>
  Claim C5. When the history holds fewer than three events at evaluation time (after the
  new vote was appended), \<open>handle_vote\<close> leaves score, status and triggered rules as
  they were; the history grows by the new event, whose audit field is the unchanged score.
\<close>

theorem short_history_is_skipped:
  assumes "length (vote_history (append_vote w now s)) < 3"
  shows "suspicion_score (handle_vote w now np s) = suspicion_score s
         \<and> status (handle_vote w now np s) = status s
         \<and> triggered_rules (handle_vote w now np s) = triggered_rules s
         \<and> vote_history (handle_vote w now np s) =
             vote_history s @
               [\<lparr> vote_judge_hash = judge_hash s, model_a = ''model_alpha'',
                  model_b = ''model_beta'',
                  battle_pair = (''model_alpha'', ''model_beta''), winner = w, tstamp = now,
                  prompt = current_prompt s,
                  suspicion_score_after = Some (suspicion_score s) \<rparr>]"
proof -
  have u: "update_suspicion_score (append_vote w now s) = append_vote w now s"
    using assms by (rule update_short)
  have sc: "suspicion_score (handle_vote w now np s) = suspicion_score s"
    by (simp add: handle_vote_fields u append_vote_fields)
  show ?thesis
    using handle_vote_history [of w now np s]
    by (simp add: sc) (simp add: handle_vote_fields u append_vote_fields)
qed

text \<open>
  Claim C3. In every evaluation (history of at least three events), a fallback rule that
  fired is the only rule that fired: the triggered set is then the singleton of its name.
  Hence no fallback name occurs beside a combination rule, and the two fallback names never
  occur together.
\<close>

theorem fallback_rules_fire_alone:
  assumes "3 \<le> length (vote_history s)"
  shows "(''Strong Bias'' \<in> triggered_rules (update_suspicion_score s) \<longrightarrow>
            triggered_rules (update_suspicion_score s) = {''Strong Bias''})
         \<and> (''Fast Voting'' \<in> triggered_rules (update_suspicion_score s) \<longrightarrow>
            triggered_rules (update_suspicion_score s) = {''Fast Voting''})
         \<and> (triggered_rules (update_suspicion_score s) \<inter> combination_rules \<noteq> {} \<longrightarrow>
            ''Strong Bias'' \<notin> triggered_rules (update_suspicion_score s)
            \<and> ''Fast Voting'' \<notin> triggered_rules (update_suspicion_score s))
         \<and> \<not> (''Strong Bias'' \<in> triggered_rules (update_suspicion_score s)
               \<and> ''Fast Voting'' \<in> triggered_rules (update_suspicion_score s))"
  unfolding update_triggered [OF assms] apply_rules_snd combination_rules_def
  by (cases "is_fast_vote (vote_history s)"; cases "has_strong_bias (vote_history s)";
      cases "is_repetitive_battle (vote_history s)"; cases "is_repetitive_prompt (vote_history s)";
      cases "has_excessive_ties (vote_history s)") simp_all

text \<open>
  Claim C2. For a vote cast in any reachable session state, if the history at evaluation
  time holds at least three events and no rule fires, the new score is \<open>9/10\<close> of the score
  before the vote.
\<close>

theorem decay_only_when_no_rule:
  assumes "3 \<le> length (vote_history (append_vote w now (session jh acts)))"
    and "triggered_rules (handle_vote w now np (session jh acts)) = {}"
  shows "suspicion_score (handle_vote w now np (session jh acts))
           = 9 / 10 * suspicion_score (session jh acts)"
proof -
  let ?e = "append_vote w now (session jh acts)"
  have nn: "0 \<le> suspicion_score ?e" by (simp add: append_vote_fields session_nonneg)
  have "snd (apply_rules (is_fast_vote (vote_history ?e)) (has_strong_bias (vote_history ?e))
                   (is_repetitive_battle (vote_history ?e)) (is_repetitive_prompt (vote_history ?e))
                   (has_excessive_ties (vote_history ?e)) (suspicion_score ?e * (9 / 10))) = {}"
    using assms(2) update_triggered [OF assms(1)] by (simp add: handle_vote_fields)
  then have "suspicion_score (update_suspicion_score ?e) = suspicion_score ?e * (9 / 10)"
    using update_score [OF assms(1) nn] by (simp add: apply_rules_none)
  then show ?thesis by (simp add: handle_vote_fields append_vote_fields)
qed

lemma handle_vote_shell:
  "judge_hash (handle_vote w now np s) = judge_hash s"
  "current_prompt (handle_vote w now np s) = np"
  by (simp_all add: handle_vote_def append_vote_def update_suspicion_score_def Let_def)

lemma append_vote_shell:
  "judge_hash (append_vote w now s) = judge_hash s"
  "current_prompt (append_vote w now s) = current_prompt s"
  by (simp_all add: append_vote_def Let_def)



section \<open>Scenarios\<close>

lemma all_less_4: "(\<forall>i<4. P i) = (P 0 \<and> P 1 \<and> P 2 \<and> P (3::nat))"
  by (auto simp: numeral_eq_Suc less_Suc_eq)

lemma all_less_5: "(\<forall>i<5. P i) = (P 0 \<and> P 1 \<and> P 2 \<and> P 3 \<and> P (4::nat))"
  by (auto simp: numeral_eq_Suc less_Suc_eq)

lemma handle_vote_eval:
  assumes "3 \<le> length (vote_history (append_vote w now (session jh acts)))"
  shows "triggered_rules (handle_vote w now np (session jh acts)) =
           snd (apply_rules (is_fast_vote (vote_history (append_vote w now (session jh acts))))
                  (has_strong_bias (vote_history (append_vote w now (session jh acts))))
                  (is_repetitive_battle (vote_history (append_vote w now (session jh acts))))
                  (is_repetitive_prompt (vote_history (append_vote w now (session jh acts))))
                  (has_excessive_ties (vote_history (append_vote w now (session jh acts))))
                  (suspicion_score (session jh acts) * (9 / 10)))"
    and "suspicion_score (handle_vote w now np (session jh acts)) =
           fst (apply_rules (is_fast_vote (vote_history (append_vote w now (session jh acts))))
                  (has_strong_bias (vote_history (append_vote w now (session jh acts))))
                  (is_repetitive_battle (vote_history (append_vote w now (session jh acts))))
                  (is_repetitive_prompt (vote_history (append_vote w now (session jh acts))))
                  (has_excessive_ties (vote_history (append_vote w now (session jh acts))))
                  (suspicion_score (session jh acts) * (9 / 10)))"
proof -
  let ?e = "append_vote w now (session jh acts)"
  have nn: "0 \<le> suspicion_score ?e" by (simp add: append_vote_fields session_nonneg)
  show "triggered_rules (handle_vote w now np (session jh acts)) =
           snd (apply_rules (is_fast_vote (vote_history ?e)) (has_strong_bias (vote_history ?e))
                  (is_repetitive_battle (vote_history ?e)) (is_repetitive_prompt (vote_history ?e))
                  (has_excessive_ties (vote_history ?e)) (suspicion_score (session jh acts) * (9 / 10)))"
    using update_triggered [OF assms] by (simp add: handle_vote_fields append_vote_fields)
  show "suspicion_score (handle_vote w now np (session jh acts)) =
           fst (apply_rules (is_fast_vote (vote_history ?e)) (has_strong_bias (vote_history ?e))
                  (is_repetitive_battle (vote_history ?e)) (is_repetitive_prompt (vote_history ?e))
                  (has_excessive_ties (vote_history ?e)) (suspicion_score (session jh acts) * (9 / 10)))"
    using update_score [OF assms nn] by (simp add: handle_vote_fields append_vote_fields)
qed

lemma append_vote_repetitive:
  "5 < length (vote_history (append_vote w now (session jh acts))) \<Longrightarrow>
   is_repetitive_battle (vote_history (append_vote w now (session jh acts)))"
  by (rule repetitive_const [OF _ append_vote_pairs])

lemma tail5_of_6: "length xs = 6 \<Longrightarrow> i < 5 \<Longrightarrow> xs ! Suc i \<in> set (tail5 xs)"
  by (simp add: tail5_def in_set_conv_nth) (rule exI [of _ i], simp)

lemma no_ties_when_all_a:
  assumes "\<forall>v\<in>set h. winner v = ''model_a''"
  shows "\<not> has_excessive_ties h"
proof -
  have "filter (\<lambda>v. str_contains (winner v) ''tie'') h = []"
    using assms by (simp add: filter_empty_conv)
  then show ?thesis by (simp add: has_excessive_ties_def)
qed

lemma repetitive_prompt_of_6:
  "length h = 6 \<Longrightarrow> is_repetitive_prompt h = (nunique (map prompt h) < 2)"
  by (auto simp: is_repetitive_prompt_def Let_def field_simps)

text \<open>
  Claim C7. Take any state with a non-negative score whose history holds six votes, all on
  the same battle pair, with neighbouring winners different and neighbouring votes more
  than three seconds apart. Its evaluation finds the repetitive-battle signal true and the
  strong-bias and fast-vote signals false, fires no rule, and leaves exactly \<open>9/10\<close> of the
  previous score.
\<close>

theorem repetitive_battle_alone:
  assumes nonneg: "0 \<le> suspicion_score s"
    and len: "length (vote_history s) = 6"
    and pair: "\<forall>v\<in>set (vote_history s). battle_pair v = p"
    and alt: "\<forall>i<5. winner (vote_history s ! i) \<noteq> winner (vote_history s ! Suc i)"
    and gap: "\<forall>i<5. 3000000 < tstamp (vote_history s ! Suc i) - tstamp (vote_history s ! i)"
  shows "is_repetitive_battle (vote_history s)
         \<and> \<not> has_strong_bias (vote_history s)
         \<and> \<not> is_fast_vote (vote_history s)
         \<and> triggered_rules (update_suspicion_score s) = {}
         \<and> suspicion_score (update_suspicion_score s) = 9 / 10 * suspicion_score s"
proof -
  let ?h = "vote_history s"
  have "5 < length ?h" using len by simp
  then have rep: "is_repetitive_battle ?h" using pair by (rule repetitive_const)
  have in4: "?h ! 4 \<in> set (tail5 ?h)" using tail5_of_6 [OF len, of 3] by simp
  have in5: "?h ! 5 \<in> set (tail5 ?h)" using tail5_of_6 [OF len, of 4] by simp
  have "winner (?h ! 4) \<noteq> winner (?h ! 5)" using alt by (simp add: all_less_5)
  then have "\<not> (\<exists>x. (x = ''model_a'' \<or> x = ''model_b'') \<and> (\<forall>v\<in>set (tail5 ?h). winner v = x))"
    using in4 in5 by metis
  then have bias: "\<not> has_strong_bias ?h" using len by (simp add: strong_bias_long)
  have "3000000 < tstamp (?h ! 5) - tstamp (?h ! 4)" using gap by (simp add: all_less_5)
  then have fast: "\<not> is_fast_vote ?h" using len by (simp add: is_fast_vote_def)
  have three: "3 \<le> length ?h" using len by simp
  have "triggered_rules (update_suspicion_score s) = {}"
    unfolding update_triggered [OF three] apply_rules_snd using bias fast by simp
  moreover have "suspicion_score (update_suspicion_score s) = 9 / 10 * suspicion_score s"
    unfolding update_score [OF three nonneg] apply_rules_fst using bias fast by simp
  ultimately show ?thesis using rep bias fast by simp
qed

text \<open>
  Claim C4, as amended. Six votes for \<^verbatim>\<open>model_a\<close> recorded through \<open>handle_vote\<close>, the
  first five at least three seconds apart and the sixth less than three seconds after the
  fifth: the sixth evaluation fires both \<^verbatim>\<open>Fast & Biased\<close> and
  \<^verbatim>\<open>Biased & Repetitive Battles\<close>, and the score is \<open>9/10\<close> of the previous score plus 7.
  When the six prompts are all the same, \<^verbatim>\<open>Fast & Repetitive Prompts\<close> fires as well and
  the increase is 9.
\<close>

theorem fast_and_biased_also_repetitive:
  assumes len: "length (vote_history (append_vote w now (session jh acts))) = 6"
    and all_a: "\<forall>v\<in>set (vote_history (append_vote w now (session jh acts))).
                   winner v = ''model_a''"
    and gap: "\<forall>i<4. 3000000 \<le> tstamp (vote_history (append_vote w now (session jh acts)) ! Suc i)
                              - tstamp (vote_history (append_vote w now (session jh acts)) ! i)"
    and quick: "tstamp (vote_history (append_vote w now (session jh acts)) ! 5)
                  - tstamp (vote_history (append_vote w now (session jh acts)) ! 4) < 3000000"
  shows "triggered_rules (handle_vote w now np (session jh acts)) =
           (if nunique (map prompt (vote_history (append_vote w now (session jh acts)))) < 2
            then {''Fast & Biased'', ''Biased & Repetitive Battles'', ''Fast & Repetitive Prompts''}
            else {''Fast & Biased'', ''Biased & Repetitive Battles''})
         \<and> suspicion_score (handle_vote w now np (session jh acts)) =
             9 / 10 * suspicion_score (session jh acts)
               + (if nunique (map prompt (vote_history (append_vote w now (session jh acts)))) < 2
                  then 9 else 7)"
proof -
  let ?h = "vote_history (append_vote w now (session jh acts))"
  have rep: "is_repetitive_battle ?h"
    using len by (simp add: append_vote_repetitive)
  have "\<forall>v\<in>set (tail5 ?h). winner v = ''model_a''"
    using all_a set_drop_subset [of "length ?h - 5" ?h] by (auto simp: tail5_def)
  then have bias: "has_strong_bias ?h" using len by (auto simp: strong_bias_long)
  have fast: "is_fast_vote ?h" using quick len by (simp add: is_fast_vote_def)
  have ties: "\<not> has_excessive_ties ?h" using all_a by (rule no_ties_when_all_a)
  have rp: "is_repetitive_prompt ?h = (nunique (map prompt ?h) < 2)"
    using len by (rule repetitive_prompt_of_6)
  have three: "3 \<le> length ?h" using len by simp
  have "triggered_rules (handle_vote w now np (session jh acts)) =
           (if nunique (map prompt ?h) < 2
            then {''Fast & Biased'', ''Biased & Repetitive Battles'', ''Fast & Repetitive Prompts''}
            else {''Fast & Biased'', ''Biased & Repetitive Battles''})"
    unfolding handle_vote_eval(1) [OF three] apply_rules_snd using rep bias fast ties rp
    by (simp add: insert_commute)
  moreover have "suspicion_score (handle_vote w now np (session jh acts)) =
             9 / 10 * suspicion_score (session jh acts)
               + (if nunique (map prompt ?h) < 2 then 9 else 7)"
    unfolding handle_vote_eval(2) [OF three] apply_rules_fst using rep bias fast ties rp by simp
  ultimately show ?thesis by simp
qed

section \<open>Concrete sessions, step by step\<close>

text \<open>
  The history of a concrete session is computed from the shape of \<open>handle_vote\<close> alone;
  scores are then obtained one vote at a time.
\<close>

lemmas hist_simps =
  session_def session_state_init_def handle_vote_history handle_vote_shell
  append_vote_history append_vote_shell

lemmas scenario_simps =
  fast_pair_def fast_start_def two_for_a_def three_for_a_def four_for_a_def five_for_a_def
  five_alternating_def five_ties_def

lemma session_vote:
  "session jh (acts @ [Vote b now np]) = handle_vote (winner_choice_of b) now np (session jh acts)"
  by (simp add: session_snoc)

lemma two_for_a_score: "suspicion_score (session ''judge'' two_for_a) = 0"
  by (simp add: two_for_a_def session_def session_state_init_def handle_vote_fields
        append_vote_fields update_short length_handle_vote)

lemma three_for_a_score: "suspicion_score (session ''judge'' three_for_a) = 0"
proof -
  let ?h = "vote_history (append_vote ''model_a'' 8000000 (session ''judge'' two_for_a))"
  have three: "3 \<le> length ?h" by (simp add: scenario_simps hist_simps)
  have fast: "\<not> is_fast_vote ?h" by (simp add: scenario_simps hist_simps is_fast_vote_def)
  have bias: "\<not> has_strong_bias ?h" by (simp add: scenario_simps hist_simps strong_bias_short)
  show ?thesis
    unfolding three_for_a_def session_vote winner_choice_of.simps
      handle_vote_eval(2) [OF three] apply_rules_fst
    using fast bias by (simp add: two_for_a_score)
qed

lemma four_for_a_score: "suspicion_score (session ''judge'' four_for_a) = 0"
proof -
  let ?h = "vote_history (append_vote ''model_a'' 12000000 (session ''judge'' three_for_a))"
  have three: "3 \<le> length ?h" by (simp add: scenario_simps hist_simps)
  have fast: "\<not> is_fast_vote ?h" by (simp add: scenario_simps hist_simps is_fast_vote_def)
  have bias: "\<not> has_strong_bias ?h" by (simp add: scenario_simps hist_simps strong_bias_short)
  show ?thesis
    unfolding four_for_a_def session_vote winner_choice_of.simps
      handle_vote_eval(2) [OF three] apply_rules_fst
    using fast bias by (simp add: three_for_a_score)
qed

lemma five_frame:
  "length (vote_history (append_vote ''model_a'' 16000000 (session ''judge'' four_for_a))) = 5"
  "\<not> is_fast_vote (vote_history (append_vote ''model_a'' 16000000 (session ''judge'' four_for_a)))"
  "has_strong_bias (vote_history (append_vote ''model_a'' 16000000 (session ''judge'' four_for_a)))"
  "\<not> is_repetitive_battle (vote_history (append_vote ''model_a'' 16000000 (session ''judge'' four_for_a)))"
     apply (simp add: scenario_simps hist_simps)
    apply (simp add: scenario_simps hist_simps is_fast_vote_def)
   apply (simp add: scenario_simps hist_simps has_strong_bias_def tail5_def)
  apply (rule not_repetitive_short, simp add: scenario_simps hist_simps)
  done

lemma five_for_a_score: "suspicion_score (session ''judge'' five_for_a) = 1"
proof -
  let ?h = "vote_history (append_vote ''model_a'' 16000000 (session ''judge'' four_for_a))"
  have three: "3 \<le> length ?h" by (simp add: five_frame)
  show ?thesis
    unfolding five_for_a_def session_vote winner_choice_of.simps
      handle_vote_eval(2) [OF three] apply_rules_fst
    by (simp add: five_frame four_for_a_score)
qed

lemma five_for_a_rules:
  "triggered_rules (update_suspicion_score
       (append_vote ''model_a'' 16000000 (session ''judge'' four_for_a))) = {''Strong Bias''}"
proof -
  let ?h = "vote_history (append_vote ''model_a'' 16000000 (session ''judge'' four_for_a))"
  have three: "3 \<le> length ?h" by (simp add: five_frame)
  show ?thesis
    unfolding update_triggered [OF three] apply_rules_snd by (simp add: five_frame)
qed

lemma six_frame:
  "length (vote_history (append_vote ''model_a'' 17000000 (session ''judge'' five_for_a))) = 6"
  "is_fast_vote (vote_history (append_vote ''model_a'' 17000000 (session ''judge'' five_for_a)))"
  "has_strong_bias (vote_history (append_vote ''model_a'' 17000000 (session ''judge'' five_for_a)))"
  "is_repetitive_battle (vote_history (append_vote ''model_a'' 17000000 (session ''judge'' five_for_a)))"
  "\<not> is_repetitive_prompt (vote_history (append_vote ''model_a'' 17000000 (session ''judge'' five_for_a)))"
  "\<not> has_excessive_ties (vote_history (append_vote ''model_a'' 17000000 (session ''judge'' five_for_a)))"
       apply (simp add: scenario_simps hist_simps)
      apply (simp add: scenario_simps hist_simps is_fast_vote_def)
     apply (simp add: scenario_simps hist_simps has_strong_bias_def tail5_def)
    apply (rule append_vote_repetitive, simp add: scenario_simps hist_simps)
   apply (simp add: scenario_simps hist_simps is_repetitive_prompt_def nunique_def)
  apply (simp add: scenario_simps hist_simps has_excessive_ties_def)
  done

lemma six_columns:
  "map winner (vote_history (append_vote ''model_a'' 17000000 (session ''judge'' five_for_a)))
     = [''model_a'', ''model_a'', ''model_a'', ''model_a'', ''model_a'', ''model_a'']"
  "map tstamp (vote_history (append_vote ''model_a'' 17000000 (session ''judge'' five_for_a)))
     = [0, 4000000, 8000000, 12000000, 16000000, 17000000]"
  by (simp_all add: scenario_simps hist_simps)

lemma six_rules:
  "triggered_rules (update_suspicion_score
       (append_vote ''model_a'' 17000000 (session ''judge'' five_for_a)))
     = {''Fast & Biased'', ''Biased & Repetitive Battles''}"
proof -
  let ?h = "vote_history (append_vote ''model_a'' 17000000 (session ''judge'' five_for_a))"
  have three: "3 \<le> length ?h" by (simp add: six_frame)
  show ?thesis
    unfolding update_triggered [OF three] apply_rules_snd by (simp add: six_frame insert_commute)
qed

lemma six_score:
  "suspicion_score (handle_vote ''model_a'' 17000000 np (session ''judge'' five_for_a)) = 79 / 10"
proof -
  let ?h = "vote_history (append_vote ''model_a'' 17000000 (session ''judge'' five_for_a))"
  have three: "3 \<le> length ?h" by (simp add: six_frame)
  show ?thesis
    unfolding handle_vote_eval(2) [OF three] apply_rules_fst
    by (simp add: six_frame five_for_a_score)
qed

lemma fast_pair_score: "suspicion_score (session ''judge'' fast_pair) = 0"
  by (simp add: fast_pair_def session_def session_state_init_def handle_vote_fields
        append_vote_fields update_short length_handle_vote)

lemma fast_start_frame:
  "length (vote_history (append_vote ''model_a'' 2000000 (session ''judge'' fast_pair))) = 3"
  "is_fast_vote (vote_history (append_vote ''model_a'' 2000000 (session ''judge'' fast_pair)))"
  "\<not> has_strong_bias (vote_history (append_vote ''model_a'' 2000000 (session ''judge'' fast_pair)))"
  "\<not> is_repetitive_prompt (vote_history (append_vote ''model_a'' 2000000 (session ''judge'' fast_pair)))"
  "\<not> has_excessive_ties (vote_history (append_vote ''model_a'' 2000000 (session ''judge'' fast_pair)))"
      apply (simp add: scenario_simps hist_simps)
     apply (simp add: scenario_simps hist_simps is_fast_vote_def)
    apply (simp add: scenario_simps hist_simps strong_bias_short)
   apply (simp add: scenario_simps hist_simps is_repetitive_prompt_def)
  apply (simp add: scenario_simps hist_simps has_excessive_ties_def)
  done

lemma fast_start_score: "suspicion_score (session ''judge'' fast_start) = 1"
proof -
  let ?h = "vote_history (append_vote ''model_a'' 2000000 (session ''judge'' fast_pair))"
  have three: "3 \<le> length ?h" by (simp add: fast_start_frame)
  show ?thesis
    unfolding fast_start_def session_vote winner_choice_of.simps
      handle_vote_eval(2) [OF three] apply_rules_fst
    by (simp add: fast_start_frame fast_pair_score)
qed

lemma fourth_frame:
  "length (vote_history (append_vote ''model_b'' 10000000 (session ''judge'' fast_start))) = 4"
  "\<not> is_fast_vote (vote_history (append_vote ''model_b'' 10000000 (session ''judge'' fast_start)))"
  "\<not> has_strong_bias (vote_history (append_vote ''model_b'' 10000000 (session ''judge'' fast_start)))"
    apply (simp add: scenario_simps hist_simps)
   apply (simp add: scenario_simps hist_simps is_fast_vote_def)
  apply (simp add: scenario_simps hist_simps strong_bias_short)
  done

text \<open>
  Claim C2, instance: after three quick votes the score is 1; a fourth vote eight seconds
  later fires no rule and leaves \<open>9/10\<close>.
\<close>

theorem decay_only_when_no_rule_witness:
  "3 \<le> length (vote_history (append_vote ''model_b'' 10000000 (session ''judge'' fast_start)))
   \<and> triggered_rules (handle_vote ''model_b'' 10000000 ''Tell me a joke.''
        (session ''judge'' fast_start)) = {}
   \<and> suspicion_score (session ''judge'' fast_start) = 1
   \<and> suspicion_score (handle_vote ''model_b'' 10000000 ''Tell me a joke.''
        (session ''judge'' fast_start)) = 9 / 10"
proof -
  have h1: "3 \<le> length (vote_history (append_vote ''model_b'' 10000000 (session ''judge'' fast_start)))"
    by (simp add: fourth_frame)
  have h2: "triggered_rules (handle_vote ''model_b'' 10000000 ''Tell me a joke.''
        (session ''judge'' fast_start)) = {}"
    unfolding handle_vote_eval(1) [OF h1] apply_rules_snd by (simp add: fourth_frame)
  show ?thesis
    using decay_only_when_no_rule [OF h1 h2] h1 h2 by (simp add: fast_start_score)
qed

text \<open>
  Claim C3, instances: the fifth vote for \<^verbatim>\<open>model_a\<close> fires \<^verbatim>\<open>Strong Bias\<close> alone; the
  quick sixth one fires two combination rules and no fallback rule.
\<close>

theorem fallback_rules_fire_alone_witness:
  "3 \<le> length (vote_history (append_vote ''model_a'' 16000000 (session ''judge'' four_for_a)))
   \<and> triggered_rules (update_suspicion_score
         (append_vote ''model_a'' 16000000 (session ''judge'' four_for_a))) = {''Strong Bias''}
   \<and> 3 \<le> length (vote_history (append_vote ''model_a'' 17000000 (session ''judge'' five_for_a)))
   \<and> triggered_rules (update_suspicion_score
         (append_vote ''model_a'' 17000000 (session ''judge'' five_for_a)))
       = {''Fast & Biased'', ''Biased & Repetitive Battles''}
   \<and> ''Strong Bias'' \<notin> triggered_rules (update_suspicion_score
         (append_vote ''model_a'' 17000000 (session ''judge'' five_for_a)))"
proof -
  have h1: "3 \<le> length (vote_history (append_vote ''model_a'' 16000000 (session ''judge'' four_for_a)))"
    by (simp add: five_frame)
  have h2: "3 \<le> length (vote_history (append_vote ''model_a'' 17000000 (session ''judge'' five_for_a)))"
    by (simp add: six_frame)
  have c2: "triggered_rules (update_suspicion_score
         (append_vote ''model_a'' 17000000 (session ''judge'' five_for_a))) \<inter> combination_rules \<noteq> {}"
    by (simp add: six_rules combination_rules_def)
  have "''Strong Bias'' \<notin> triggered_rules (update_suspicion_score
         (append_vote ''model_a'' 17000000 (session ''judge'' five_for_a)))"
    using fallback_rules_fire_alone [OF h2] c2 by blast
  then show ?thesis
    using fallback_rules_fire_alone [OF h1] h1 h2 by (simp add: five_for_a_rules six_rules)
qed

text \<open>
  Claim C4 as stated fails: five votes for \<^verbatim>\<open>model_a\<close> four seconds apart and a sixth one
  second later give two triggered rules, not the singleton of \<^verbatim>\<open>Fast & Biased\<close>, and the
  score moves from 1 to \<open>79/10\<close>, not to \<open>9/10 * 1 + 4\<close>.
\<close>

theorem fast_and_biased_counterexample:
  "map winner (vote_history (append_vote ''model_a'' 17000000 (session ''judge'' five_for_a)))
     = [''model_a'', ''model_a'', ''model_a'', ''model_a'', ''model_a'', ''model_a'']
   \<and> map tstamp (vote_history (append_vote ''model_a'' 17000000 (session ''judge'' five_for_a)))
     = [0, 4000000, 8000000, 12000000, 16000000, 17000000]
   \<and> triggered_rules (handle_vote ''model_a'' 17000000 ''Write a short story.''
        (session ''judge'' five_for_a)) = {''Fast & Biased'', ''Biased & Repetitive Battles''}
   \<and> triggered_rules (handle_vote ''model_a'' 17000000 ''Write a short story.''
        (session ''judge'' five_for_a)) \<noteq> {''Fast & Biased''}
   \<and> suspicion_score (session ''judge'' five_for_a) = 1
   \<and> suspicion_score (handle_vote ''model_a'' 17000000 ''Write a short story.''
        (session ''judge'' five_for_a)) = 79 / 10
   \<and> suspicion_score (handle_vote ''model_a'' 17000000 ''Write a short story.''
        (session ''judge'' five_for_a))
       \<noteq> 9 / 10 * suspicion_score (session ''judge'' five_for_a) + 4"
proof -
  have ne: "{''Fast & Biased'', ''Biased & Repetitive Battles''} \<noteq> {''Fast & Biased''}"
    by auto
  show ?thesis
    using ne by (simp add: handle_vote_fields(3) six_rules six_score five_for_a_score six_columns)
qed

text \<open>Claim C4 as amended, instance: the same six votes, with four distinct prompts.\<close>

theorem fast_and_biased_also_repetitive_witness:
  "length (vote_history (append_vote ''model_a'' 17000000 (session ''judge'' five_for_a))) = 6
   \<and> map winner (vote_history (append_vote ''model_a'' 17000000 (session ''judge'' five_for_a)))
       = [''model_a'', ''model_a'', ''model_a'', ''model_a'', ''model_a'', ''model_a'']
   \<and> map tstamp (vote_history (append_vote ''model_a'' 17000000 (session ''judge'' five_for_a)))
       = [0, 4000000, 8000000, 12000000, 16000000, 17000000]
   \<and> nunique (map prompt (vote_history
         (append_vote ''model_a'' 17000000 (session ''judge'' five_for_a)))) = 4
   \<and> triggered_rules (handle_vote ''model_a'' 17000000 ''Write a short story.''
        (session ''judge'' five_for_a)) = {''Fast & Biased'', ''Biased & Repetitive Battles''}
   \<and> suspicion_score (handle_vote ''model_a'' 17000000 ''Write a short story.''
        (session ''judge'' five_for_a)) = 9 / 10 * suspicion_score (session ''judge'' five_for_a) + 7"
proof -
  let ?h = "vote_history (append_vote ''model_a'' 17000000 (session ''judge'' five_for_a))"
  have len: "length ?h = 6" by (simp add: six_frame)
  have all_a: "\<forall>v\<in>set ?h. winner v = ''model_a''" by (simp add: scenario_simps hist_simps)
  have gap: "\<forall>i<4. 3000000 \<le> tstamp (?h ! Suc i) - tstamp (?h ! i)"
    by (simp add: all_less_4 scenario_simps hist_simps)
  have quick: "tstamp (?h ! 5) - tstamp (?h ! 4) < 3000000"
    by (simp add: scenario_simps hist_simps)
  have nu: "nunique (map prompt ?h) = 4"
    by (simp add: scenario_simps hist_simps nunique_def)
  show ?thesis
    using fast_and_biased_also_repetitive [OF len all_a gap quick, of "''Write a short story.''"]
    by (simp add: len nu six_columns)
qed

text \<open>Claim C5, instance: the first vote of a session.\<close>

theorem short_history_is_skipped_witness:
  "length (vote_history (append_vote ''model_a'' 0 (session_state_init ''judge''))) < 3
   \<and> suspicion_score (handle_vote ''model_a'' 0 ''Tell me a joke.'' (session_state_init ''judge'')) = 0
   \<and> status (handle_vote ''model_a'' 0 ''Tell me a joke.'' (session_state_init ''judge'')) = Normal
   \<and> triggered_rules (handle_vote ''model_a'' 0 ''Tell me a joke.'' (session_state_init ''judge'')) = {}
   \<and> length (vote_history (handle_vote ''model_a'' 0 ''Tell me a joke.'' (session_state_init ''judge''))) = 1"
proof -
  have h: "length (vote_history (append_vote ''model_a'' 0 (session_state_init ''judge''))) < 3"
    by (simp add: append_vote_fields session_state_init_def)
  show ?thesis
    using short_history_is_skipped [OF h, of "''Tell me a joke.''"] h
    by (simp add: session_state_init_def)
qed

text \<open>
  Claim C6, instances: a history of three votes, five votes for \<^verbatim>\<open>model_a\<close>, five ties.
\<close>

theorem strong_bias_window_witness:
  "length (vote_history (session ''judge'' fast_start)) < 5
   \<and> \<not> has_strong_bias (vote_history (session ''judge'' fast_start))
   \<and> 5 \<le> length (vote_history (session ''judge'' five_for_a))
   \<and> map winner (tail5 (vote_history (session ''judge'' five_for_a)))
       = [''model_a'', ''model_a'', ''model_a'', ''model_a'', ''model_a'']
   \<and> has_strong_bias (vote_history (session ''judge'' five_for_a))
   \<and> 5 \<le> length (vote_history (session ''judge'' five_ties))
   \<and> map winner (tail5 (vote_history (session ''judge'' five_ties)))
       = [''tie'', ''tie'', ''tie'', ''tie'', ''tie'']
   \<and> \<not> has_strong_bias (vote_history (session ''judge'' five_ties))"
proof -
  have a1: "length (vote_history (session ''judge'' fast_start)) < 5"
    by (simp add: scenario_simps hist_simps)
  have b1: "5 \<le> length (vote_history (session ''judge'' five_for_a))"
    by (simp add: scenario_simps hist_simps)
  have b2: "map winner (tail5 (vote_history (session ''judge'' five_for_a)))
       = [''model_a'', ''model_a'', ''model_a'', ''model_a'', ''model_a'']"
    by (simp add: scenario_simps hist_simps tail5_def)
  have b3: "\<forall>v\<in>set (tail5 (vote_history (session ''judge'' five_for_a))). winner v = ''model_a''"
    by (simp add: scenario_simps hist_simps tail5_def)
  have c1: "5 \<le> length (vote_history (session ''judge'' five_ties))"
    by (simp add: scenario_simps hist_simps)
  have c2: "map winner (tail5 (vote_history (session ''judge'' five_ties)))
       = [''tie'', ''tie'', ''tie'', ''tie'', ''tie'']"
    by (simp add: scenario_simps hist_simps tail5_def)
  have c3: "\<forall>v\<in>set (tail5 (vote_history (session ''judge'' five_ties))). winner v = ''tie''"
    by (simp add: scenario_simps hist_simps tail5_def)
  have A: "\<not> has_strong_bias (vote_history (session ''judge'' fast_start))"
    using strong_bias_window [of "vote_history (session ''judge'' fast_start)"] a1 by blast
  have B: "has_strong_bias (vote_history (session ''judge'' five_for_a))"
    using strong_bias_window [of "vote_history (session ''judge'' five_for_a)"] b1 b3 by blast
  have C: "\<not> has_strong_bias (vote_history (session ''judge'' five_ties))"
    using strong_bias_window [of "vote_history (session ''judge'' five_ties)"] c1 c3 by blast
  show ?thesis using a1 b1 b2 c1 c2 A B C by simp
qed

text \<open>
  Claim C7, instance: six alternating votes four seconds apart and a previous score of 2;
  the evaluation leaves \<open>9/5\<close>.
\<close>

theorem repetitive_battle_alone_witness:
  "suspicion_score six_alternating_scored = 2
   \<and> length (vote_history six_alternating_scored) = 6
   \<and> map battle_pair (vote_history six_alternating_scored)
       = replicate 6 (''model_alpha'', ''model_beta'')
   \<and> map winner (vote_history six_alternating_scored)
       = [''model_a'', ''model_b'', ''model_a'', ''model_b'', ''model_a'', ''model_b'']
   \<and> map tstamp (vote_history six_alternating_scored)
       = [0, 4000000, 8000000, 12000000, 16000000, 20000000]
   \<and> is_repetitive_battle (vote_history six_alternating_scored)
   \<and> \<not> has_strong_bias (vote_history six_alternating_scored)
   \<and> \<not> is_fast_vote (vote_history six_alternating_scored)
   \<and> triggered_rules (update_suspicion_score six_alternating_scored) = {}
   \<and> suspicion_score (update_suspicion_score six_alternating_scored) = 9 / 5"
proof -
  let ?h = "vote_history six_alternating_scored"
  have sc: "suspicion_score six_alternating_scored = 2"
    by (simp add: six_alternating_scored_def)
  have nonneg: "0 \<le> suspicion_score six_alternating_scored" by (simp add: sc)
  have len: "length ?h = 6"
    by (simp add: six_alternating_scored_def scenario_simps hist_simps)
  have pair: "\<forall>v\<in>set ?h. battle_pair v = (''model_alpha'', ''model_beta'')"
    by (simp add: six_alternating_scored_def scenario_simps hist_simps)
  have alt: "\<forall>i<5. winner (?h ! i) \<noteq> winner (?h ! Suc i)"
    by (simp add: all_less_5 six_alternating_scored_def scenario_simps hist_simps)
  have gap: "\<forall>i<5. 3000000 < tstamp (?h ! Suc i) - tstamp (?h ! i)"
    by (simp add: all_less_5 six_alternating_scored_def scenario_simps hist_simps)
  have b: "map battle_pair ?h = replicate 6 (''model_alpha'', ''model_beta'')"
    by (simp add: six_alternating_scored_def scenario_simps hist_simps numeral_eq_Suc)
  have w: "map winner ?h = [''model_a'', ''model_b'', ''model_a'', ''model_b'', ''model_a'', ''model_b'']"
    by (simp add: six_alternating_scored_def scenario_simps hist_simps)
  have t: "map tstamp ?h = [0, 4000000, 8000000, 12000000, 16000000, 20000000]"
    by (simp add: six_alternating_scored_def scenario_simps hist_simps)
  show ?thesis
    using repetitive_battle_alone [OF nonneg len pair alt gap] sc len b w t
    by simp
qed

text \<open>Claim C9, instance: the state after three quick votes, whose score is 1.\<close>

theorem score_never_negative_witness:
  "suspicion_score (session_state_init ''judge'') = 0
   \<and> suspicion_score (session ''judge'' fast_start) = 1
   \<and> 0 \<le> suspicion_score (update_suspicion_score (session ''judge'' fast_start))
   \<and> 0 \<le> suspicion_score (handle_vote ''model_b'' 10000000 ''Tell me a joke.''
             (session ''judge'' fast_start))"
  using score_never_negative [of "''judge''" "session ''judge'' fast_start" "''model_b''"
          10000000 "''Tell me a joke.''" fast_start]
  by (simp add: fast_start_score)

text \<open>Claim C10, instance: the sixth vote of a session.\<close>

theorem constant_pair_repetitive_witness:
  "5 < length (vote_history (append_vote ''model_b'' 20000000 (session ''judge'' five_alternating)))
   \<and> map battle_pair (vote_history (append_vote ''model_b'' 20000000
         (session ''judge'' five_alternating)))
       = replicate 6 (sorted_pair ''model_alpha'' ''model_beta'')
   \<and> is_repetitive_battle (vote_history (append_vote ''model_b'' 20000000
         (session ''judge'' five_alternating)))"
proof -
  have h: "5 < length (vote_history (append_vote ''model_b'' 20000000 (session ''judge'' five_alternating)))"
    by (simp add: scenario_simps hist_simps)
  have m: "map battle_pair (vote_history (append_vote ''model_b'' 20000000
         (session ''judge'' five_alternating)))
       = replicate 6 (sorted_pair ''model_alpha'' ''model_beta'')"
    by (simp add: scenario_simps hist_simps numeral_eq_Suc arena_pair)
  show ?thesis
    using constant_pair_repetitive [of "''model_b''" 20000000 "''judge''" five_alternating] h m
    by simp
qed

end
